theory Spec2Isabelle
  imports Complex_Main "HOL-Library.AList" "HOL-Library.Multiset"
begin

section \<open>Python values and library functions used by the analyzer\<close>

text \<open>
  Exceptions that the modelled code can raise are values. \<open>DbError\<close> stands for any
  exception raised by the database driver.
\<close>

datatype py_error = ValueError | TypeError | KeyError | IndexError | DbError

text \<open>
  Floats are modelled by the reals: \<^verbatim>\<open>math.radians\<close>, \<^verbatim>\<open>math.sin\<close>,
  \<^verbatim>\<open>math.cos\<close>, \<^verbatim>\<open>math.sqrt\<close> and \<^verbatim>\<open>math.atan2\<close> are the
  mathematical functions, without rounding. \<^verbatim>\<open>math.sqrt\<close> raises \<^verbatim>\<open>ValueError\<close>
  on a negative argument.
\<close>

definition radians :: "real \<Rightarrow> real" where
  "radians x = x * pi / 180"

definition atan2 :: "real \<Rightarrow> real \<Rightarrow> real" where
  "atan2 y x =
     (if 0 < x then arctan (y / x)
      else if x < 0 then (if 0 \<le> y then arctan (y / x) + pi else arctan (y / x) - pi)
      else if 0 < y then pi / 2
      else if y < 0 then - (pi / 2)
      else 0)"

definition py_sqrt :: "real \<Rightarrow> py_error + real" where
  "py_sqrt x = (if x < 0 then Inl ValueError else Inr (sqrt x))"

text \<open>
  \<^verbatim>\<open>round(x, ndigits)\<close> rounds to the nearest multiple of \<open>10 ^ (- ndigits)\<close>, a tie
  going to the even one; \<^verbatim>\<open>int(x)\<close> truncates towards zero.
\<close>

definition py_round :: "real \<Rightarrow> nat \<Rightarrow> real" where
  "py_round x ndigits =
     (let y = x * 10 ^ ndigits;
          f = \<lfloor>y\<rfloor>;
          d = y - of_int f
      in of_int (if d < 1 / 2 then f
                 else if 1 / 2 < d then f + 1
                 else if even f then f else f + 1) / 10 ^ ndigits)"

definition py_int :: "real \<Rightarrow> int" where
  "py_int x = (if 0 \<le> x then \<lfloor>x\<rfloor> else \<lceil>x\<rceil>)"

text \<open>
  \<^verbatim>\<open>sum\<close> adds from the left, starting at 0. \<^verbatim>\<open>max\<close> and \<^verbatim>\<open>min\<close> keep the
  first extremal item and raise \<^verbatim>\<open>ValueError\<close> on an empty iterable.
\<close>

definition py_sum :: "'a::monoid_add list \<Rightarrow> 'a" where
  "py_sum xs = foldl (+) 0 xs"

fun py_max :: "real list \<Rightarrow> py_error + real" where
  "py_max [] = Inl ValueError"
| "py_max (x # xs) = Inr (foldl (\<lambda>m y. if m < y then y else m) x xs)"

fun py_min :: "real list \<Rightarrow> py_error + real" where
  "py_min [] = Inl ValueError"
| "py_min (x # xs) = Inr (foldl (\<lambda>m y. if y < m then y else m) x xs)"

text \<open>
  Strings are byte strings; \<^verbatim>\<open>str.lower\<close> maps the ASCII capitals and leaves every
  other byte as it is, \<^verbatim>\<open>str.strip\<close> removes the ASCII white space Python knows
  (codes 9 to 13, 28 to 32), \<^verbatim>\<open>str.split(',')\<close> cuts at every comma and
  \<^verbatim>\<open>in\<close> is the substring test.
\<close>

definition lower_char :: "char \<Rightarrow> char" where
  "lower_char c =
     (case map_of (zip ''ABCDEFGHIJKLMNOPQRSTUVWXYZ'' ''abcdefghijklmnopqrstuvwxyz'') c of
        None \<Rightarrow> c
      | Some l \<Rightarrow> l)"

definition py_lower :: "string \<Rightarrow> string" where
  "py_lower s = map lower_char s"

definition py_isspace :: "char \<Rightarrow> bool" where
  "py_isspace c = (let n = (of_char c :: nat) in (9 \<le> n \<and> n \<le> 13) \<or> (28 \<le> n \<and> n \<le> 32))"

definition py_strip :: "string \<Rightarrow> string" where
  "py_strip s = rev (dropWhile py_isspace (rev (dropWhile py_isspace s)))"

fun split_comma :: "string \<Rightarrow> string list" where
  "split_comma [] = [[]]"
| "split_comma (c # cs) =
     (if c = CHR '','' then [] # split_comma cs
      else (case split_comma cs of [] \<Rightarrow> [[c]] | w # ws \<Rightarrow> (c # w) # ws))"

fun startswith :: "string \<Rightarrow> string \<Rightarrow> bool" where
  "startswith s [] = True"
| "startswith [] (d # ds) = False"
| "startswith (c # cs) (d # ds) = (c = d \<and> startswith cs ds)"

fun py_in :: "string \<Rightarrow> string \<Rightarrow> bool" where
  "py_in sub [] = (sub = [])"
| "py_in sub (c # cs) = (startswith (c # cs) sub \<or> py_in sub cs)"

section \<open>Distance Calculator\<close>

text \<open>
  \<^verbatim>\<open>_calcular_distancia(lat1, lng1, lat2, lng2)\<close>. An argument is a float or
  \<^verbatim>\<open>None\<close>; \<^verbatim>\<open>all([...])\<close> is false as soon as one of them is \<^verbatim>\<open>None\<close> or
  zero, and then the function returns 0.
\<close>

definition haversine_a :: "real \<Rightarrow> real \<Rightarrow> real \<Rightarrow> real \<Rightarrow> real" where
  "haversine_a lat1 lng1 lat2 lng2 =
     (let dlat = radians (lat2 - lat1);
          dlng = radians (lng2 - lng1)
      in sin (dlat / 2) * sin (dlat / 2) +
         cos (radians lat1) * cos (radians lat2) * sin (dlng / 2) * sin (dlng / 2))"

fun calcular_distancia ::
  "real option \<Rightarrow> real option \<Rightarrow> real option \<Rightarrow> real option \<Rightarrow> py_error + real" where
  "calcular_distancia (Some lat1) (Some lng1) (Some lat2) (Some lng2) =
     (if lat1 = 0 \<or> lng1 = 0 \<or> lat2 = 0 \<or> lng2 = 0 then Inr 0
      else
        let a = haversine_a lat1 lng1 lat2 lng2 in
        case py_sqrt a of
          Inl e \<Rightarrow> Inl e
        | Inr sa \<Rightarrow>
            (case py_sqrt (1 - a) of
               Inl e \<Rightarrow> Inl e
             | Inr sb \<Rightarrow> Inr (6371 * (2 * atan2 sa sb))))"
| "calcular_distancia _ _ _ _ = Inr 0"

section \<open>Presence Matcher\<close>

text \<open>
  One entity of the search response: \<^verbatim>\<open>name\<close>, \<^verbatim>\<open>rating\<close> and
  \<^verbatim>\<open>user_ratings_total\<close>, each of which may be missing from the dictionary.
\<close>

record place =
  place_name :: "string option"
  rating :: "real option"
  user_ratings_total :: "int option"

text \<open>
  \<^verbatim>\<open>_es_tu_negocio(place)\<close>; the first argument is the value of the environment
  variable \<^verbatim>\<open>BUSINESS_KEYWORDS\<close>, \<open>None\<close> when it is not set.
\<close>

definition es_tu_negocio :: "string option \<Rightarrow> place \<Rightarrow> bool" where
  "es_tu_negocio business_keywords p =
     (let nombre = py_lower (case place_name p of None \<Rightarrow> [] | Some n \<Rightarrow> n);
          business_terms =
            split_comma (py_lower (case business_keywords of
                                     None \<Rightarrow> ''your business'' | Some k \<Rightarrow> k))
      in list_ex (\<lambda>trm. py_in (py_strip trm) nombre) business_terms)"

section \<open>Point Analyzer\<close>

text \<open>
  The configuration the analyzer reads: the environment variable
  \<^verbatim>\<open>BUSINESS_KEYWORDS\<close> and the coordinates of \<^verbatim>\<open>base_location\<close>. A test
  location is a dictionary with \<^verbatim>\<open>name\<close>, \<^verbatim>\<open>lat\<close>, \<^verbatim>\<open>lng\<close> and an
  optional \<^verbatim>\<open>zip\<close>.
\<close>

record config =
  business_keywords :: "string option"
  base_lat :: real
  base_lng :: real

record test_city =
  city_name :: string
  city_lat :: real
  city_lng :: real
  city_zip :: "string option"

text \<open>
  The dictionary \<^verbatim>\<open>resultado\<close>. The key \<^verbatim>\<open>zip\<close> is the field \<open>zip_code\<close>.
\<close>

record resultado =
  ciudad :: string
  zip_code :: string
  tier :: string
  keyword :: string
  aparece :: bool
  posicion :: "nat option"
  distancia_km :: real
  lat :: real
  lng :: real
  total_competidores :: nat
  rating_promedio :: real
  reviews_promedio :: int

text \<open>
  What \<^verbatim>\<open>requests.get\<close> does: it raises, or it returns a response with a status code
  and a body. The body is \<open>None\<close> when \<^verbatim>\<open>response.json()\<close> raises; otherwise it
  is a dictionary whose keys \<^verbatim>\<open>status\<close> and \<^verbatim>\<open>results\<close> may be missing.
\<close>

record api_data =
  status :: "string option"
  results :: "place list option"

datatype http_result = RequestFailed | Response int "api_data option"

text \<open>
  The persistence collaborator. The analyzer's side effects are the calls it makes on the
  connection, recorded in order; \<open>db_behaviour\<close> says which of the calls of one
  \<^verbatim>\<open>_guardar_resultado\<close> raise.
\<close>

datatype db_call = Execute_insert resultado | Commit | Rollback

record db_behaviour =
  cursor_ok :: bool
  execute_ok :: bool
  commit_ok :: bool
  rollback_ok :: bool

text \<open>
  \<^verbatim>\<open>_guardar_resultado\<close>: the body of the \<^verbatim>\<open>try\<close> runs up to the first call
  that raises; the handler logs and calls \<^verbatim>\<open>rollback\<close>, whose own exception is not
  caught. The first component of the result is the exception that leaves the function.
\<close>

definition guardar_resultado ::
  "db_behaviour \<Rightarrow> resultado \<Rightarrow> db_call list \<Rightarrow> py_error option \<times> db_call list" where
  "guardar_resultado db res calls =
     (let tried =
            (if \<not> cursor_ok db then (False, calls)
             else if \<not> execute_ok db then (False, calls @ [Execute_insert res])
             else if \<not> commit_ok db then (False, calls @ [Execute_insert res, Commit])
             else (True, calls @ [Execute_insert res, Commit]))
      in if fst tried then (None, snd tried)
         else if rollback_ok db then (None, snd tried @ [Rollback])
         else (Some DbError, snd tried @ [Rollback]))"

text \<open>
  The loop \<^verbatim>\<open>for idx, place in enumerate(places[:20])\<close> with its \<^verbatim>\<open>break\<close>.
\<close>

fun buscar_posicion :: "string option \<Rightarrow> nat \<Rightarrow> place list \<Rightarrow> nat option" where
  "buscar_posicion kws idx [] = None"
| "buscar_posicion kws idx (p # rest) =
     (if es_tu_negocio kws p then Some (idx + 1) else buscar_posicion kws (idx + 1) rest)"

text \<open>
  The middle of \<^verbatim>\<open>analizar_ciudad\<close>: the position of the business among the first
  20 places, the competitor statistics and the dictionary \<^verbatim>\<open>resultado\<close>, from the
  places of the response and the distance already computed.
\<close>

definition construir_resultado ::
  "config \<Rightarrow> test_city \<Rightarrow> string \<Rightarrow> string \<Rightarrow> place list \<Rightarrow> real \<Rightarrow> resultado" where
  "construir_resultado cfg city kw tr places distancia =
     (let tu_posicion = buscar_posicion (business_keywords cfg) 0 (take 20 places);
          competidores = filter (\<lambda>p. \<not> es_tu_negocio (business_keywords cfg) p) places;
          rating_prom =
            (if competidores \<noteq> []
             then py_sum (map (\<lambda>p. case rating p of None \<Rightarrow> 0 | Some x \<Rightarrow> x) competidores)
                  / real (length competidores)
             else 0);
          reviews_prom =
            (if competidores \<noteq> []
             then real_of_int
                    (py_sum (map (\<lambda>p. case user_ratings_total p of None \<Rightarrow> 0 | Some n \<Rightarrow> n)
                               competidores))
                  / real (length competidores)
             else 0)
      in \<lparr>ciudad = city_name city,
          zip_code = (case city_zip city of None \<Rightarrow> [] | Some z \<Rightarrow> z),
          tier = tr,
          keyword = kw,
          aparece = (tu_posicion \<noteq> None),
          posicion = tu_posicion,
          distancia_km = py_round distancia 2,
          lat = city_lat city,
          lng = city_lng city,
          total_competidores = length places,
          rating_promedio = py_round rating_prom 2,
          reviews_promedio = py_int reviews_prom\<rparr>)"

text \<open>
  \<^verbatim>\<open>analizar_ciudad(ciudad, keyword, tier)\<close>, given what the request returns, how the
  database behaves and the calls made on the database so far. Every exception raised
  inside the \<^verbatim>\<open>try\<close> ends in \<^verbatim>\<open>return None\<close>.
\<close>

definition analizar_ciudad ::
  "config \<Rightarrow> test_city \<Rightarrow> string \<Rightarrow> string \<Rightarrow> http_result \<Rightarrow> db_behaviour \<Rightarrow> db_call list
     \<Rightarrow> resultado option \<times> db_call list" where
  "analizar_ciudad cfg city kw tr http db calls =
     (case http of
        RequestFailed \<Rightarrow> (None, calls)
      | Response status_code body \<Rightarrow>
          if status_code = 200 then
            (case body of
               None \<Rightarrow> (None, calls)
             | Some data \<Rightarrow>
                 (case status data of
                    None \<Rightarrow> (None, calls)
                  | Some st \<Rightarrow>
                      if st = ''OK'' then
                        (let places = (case results data of None \<Rightarrow> [] | Some ps \<Rightarrow> ps) in
                         case calcular_distancia (Some (base_lat cfg)) (Some (base_lng cfg))
                                (Some (city_lat city)) (Some (city_lng city)) of
                           Inl e \<Rightarrow> (None, calls)
                         | Inr distancia \<Rightarrow>
                             (let res = construir_resultado cfg city kw tr places distancia in
                              case guardar_resultado db res calls of
                                (None, calls') \<Rightarrow> (Some res, calls')
                              | (Some e, calls') \<Rightarrow> (None, calls')))
                      else (None, calls)))
          else (None, calls))"

section \<open>Dominance Aggregator\<close>

text \<open>
  \<^verbatim>\<open>_generar_mapa_dominio\<close> logs its figures; the model returns the figures of the
  overall block: either the three numbers or the state "no appearances". The sum over
  \<^verbatim>\<open>r['posicion']\<close> raises \<^verbatim>\<open>TypeError\<close> at a position that is \<^verbatim>\<open>None\<close>.
  The per-tier block that follows reads the same lists and logs only.
\<close>

record dominio =
  distancia_max :: real
  distancia_min :: real
  posicion_promedio :: real

datatype mapa_dominio = No_appearances | Dominance dominio

fun sum_posiciones :: "int \<Rightarrow> resultado list \<Rightarrow> py_error + int" where
  "sum_posiciones acc [] = Inr acc"
| "sum_posiciones acc (r # rs) =
     (case posicion r of
        None \<Rightarrow> Inl TypeError
      | Some p \<Rightarrow> sum_posiciones (acc + int p) rs)"

definition generar_mapa_dominio :: "resultado list \<Rightarrow> py_error + mapa_dominio" where
  "generar_mapa_dominio resultados =
     (let apariciones = filter aparece resultados in
      if apariciones \<noteq> [] then
        (case py_max (map distancia_km apariciones) of
           Inl e \<Rightarrow> Inl e
         | Inr dmax \<Rightarrow>
             (case py_min (map distancia_km apariciones) of
                Inl e \<Rightarrow> Inl e
              | Inr dmin \<Rightarrow>
                  (case sum_posiciones 0 apariciones of
                     Inl e \<Rightarrow> Inl e
                   | Inr suma \<Rightarrow>
                       Inr (Dominance \<lparr>distancia_max = dmax, distancia_min = dmin,
                              posicion_promedio =
                                real_of_int suma / real (length apariciones)\<rparr>))))
      else Inr No_appearances)"

section \<open>Opportunity Ranker\<close>

text \<open>
  The conditional expression that labels a row:
  \<^verbatim>\<open>"EASY" if reviews < 100 else "MEDIUM" if reviews < 200 else "HARD"\<close>, on the
  integer \<^verbatim>\<open>reviews_competidores\<close>.
\<close>

definition dificultad :: "int \<Rightarrow> string" where
  "dificultad reviews =
     (if reviews < 100 then ''EASY''
      else if reviews < 200 then ''MEDIUM''
      else ''HARD'')"

text \<open>
  The value stored in \<^verbatim>\<open>ciudades_oportunidad\<close> for a city; the key \<^verbatim>\<open>tier\<close>
  is the field \<open>tier_oportunidad\<close>.
\<close>

record oportunidad =
  distancia :: real
  tier_oportunidad :: string
  competidores :: nat
  rating_competidores :: real
  reviews_competidores :: int

definition oportunidad_de :: "resultado \<Rightarrow> oportunidad" where
  "oportunidad_de ciudad_data =
     \<lparr>distancia = distancia_km ciudad_data,
      tier_oportunidad = tier ciudad_data,
      competidores = total_competidores ciudad_data,
      rating_competidores = rating_promedio ciudad_data,
      reviews_competidores = reviews_promedio ciudad_data\<rparr>"

text \<open>
  The loop \<^verbatim>\<open>for ciudad in set(r['ciudad'] for r in no_apariciones)\<close>. Python does not
  fix the order in which a set of strings is iterated, so the order is an argument: the
  list \<open>orden\<close> of the cities as the loop meets them. The dictionary is an association
  list in insertion order; \<^verbatim>\<open>[...][0]\<close> raises \<^verbatim>\<open>IndexError\<close> on an empty list.
\<close>

fun ciudades_oportunidad ::
  "resultado list \<Rightarrow> string list \<Rightarrow> (string \<times> oportunidad) list
     \<Rightarrow> py_error + (string \<times> oportunidad) list" where
  "ciudades_oportunidad no_apariciones [] d = Inr d"
| "ciudades_oportunidad no_apariciones (c # rest) d =
     (case filter (\<lambda>r. ciudad r = c) no_apariciones of
        [] \<Rightarrow> Inl IndexError
      | ciudad_data # others \<Rightarrow>
          ciudades_oportunidad no_apariciones rest
            (AList.update c (oportunidad_de ciudad_data) d))"

text \<open>
  \<open>orden\<close> is an iteration order of the set when it lists every city of the set once.
\<close>

definition iteration_order :: "resultado list \<Rightarrow> string list \<Rightarrow> bool" where
  "iteration_order resultados orden =
     (distinct orden \<and>
      set orden = set (map ciudad (filter (\<lambda>r. \<not> aparece r) resultados)))"

text \<open>
  \<^verbatim>\<open>_generar_recomendaciones_expansion\<close>: the rows it logs, each with its number, the
  city, the stored values and the difficulty. \<^verbatim>\<open>sorted\<close> is stable.
\<close>

definition generar_recomendaciones_expansion ::
  "resultado list \<Rightarrow> string list \<Rightarrow> py_error + (nat \<times> string \<times> oportunidad \<times> string) list" where
  "generar_recomendaciones_expansion resultados orden =
     (let no_apariciones = filter (\<lambda>r. \<not> aparece r) resultados in
      case ciudades_oportunidad no_apariciones orden [] of
        Inl e \<Rightarrow> Inl e
      | Inr d \<Rightarrow>
          (let ciudades_ordenadas = sort_key (\<lambda>x. distancia (snd x)) d in
           Inr (map (\<lambda>(i, c, data). (i, c, data, dificultad (reviews_competidores data)))
                  (enumerate 1 (take 10 ciudades_ordenadas)))))"

text \<open>
  The ranking as the specification words it, to compare with the code: keep the results
  that are not found, keep for each location the first of them in input order (the
  locations in the order of their first result), sort ascending by distance with a
  stable sort, cut to 10 and label.
\<close>

fun dedup_by_location :: "resultado list \<Rightarrow> resultado list" where
  "dedup_by_location [] = []"
| "dedup_by_location (r # rs) = r # dedup_by_location (filter (\<lambda>q. ciudad q \<noteq> ciudad r) rs)"

definition rank_spec :: "resultado list \<Rightarrow> (nat \<times> string \<times> oportunidad \<times> string) list" where
  "rank_spec resultados =
     (let absent_set = filter (\<lambda>r. \<not> aparece r) resultados;
          deduplicated = dedup_by_location absent_set;
          sorted_set = sort_key distancia_km deduplicated
      in map (\<lambda>(i, r). (i, ciudad r, oportunidad_de r, dificultad (reviews_promedio r)))
           (enumerate 1 (take 10 sorted_set)))"

section \<open>Distance Calculator: properties\<close>

lemma haversine_a_sym: "haversine_a lat1 lng1 lat2 lng2 = haversine_a lat2 lng2 lat1 lng1"
proof -
  have d1: "radians (lat1 - lat2) / 2 = - (radians (lat2 - lat1) / 2)"
    by (simp add: radians_def field_simps)
  have d2: "radians (lng1 - lng2) / 2 = - (radians (lng2 - lng1) / 2)"
    by (simp add: radians_def field_simps)
  show ?thesis
    unfolding haversine_a_def Let_def d1 d2 sin_minus by (simp add: mult.commute)
qed

lemma haversine_a_same: "haversine_a lat1 lng1 lat1 lng1 = 0"
  by (simp add: haversine_a_def radians_def)

lemma haversine_a_mix:
  "haversine_a lat1 lng1 lat2 lng2 =
     (sin (radians (lat2 - lat1) / 2))\<^sup>2 * (1 - (sin (radians (lng2 - lng1) / 2))\<^sup>2) +
     (cos ((radians lat1 + radians lat2) / 2))\<^sup>2 * (sin (radians (lng2 - lng1) / 2))\<^sup>2"
proof -
  define p where "p = (radians lat1 + radians lat2) / 2"
  define q where "q = radians (lat2 - lat1) / 2"
  define s where "s = sin (radians (lng2 - lng1) / 2)"
  have l1: "radians lat1 = p - q" and l2: "radians lat2 = p + q"
    by (simp_all add: p_def q_def radians_def field_simps)
  have cc: "cos (p - q) * cos (p + q) = (cos p)\<^sup>2 - (sin q)\<^sup>2"
  proof -
    have "cos (p - q) * cos (p + q) = (cos p * cos q)\<^sup>2 - (sin p * sin q)\<^sup>2"
      by (simp add: cos_add cos_diff power2_eq_square algebra_simps)
    also have "\<dots> = (cos p)\<^sup>2 * (1 - (sin q)\<^sup>2) - (1 - (cos p)\<^sup>2) * (sin q)\<^sup>2"
      by (simp only: power_mult_distrib cos_squared_eq [of q] sin_squared_eq [of p])
    also have "\<dots> = (cos p)\<^sup>2 - (sin q)\<^sup>2"
      by (simp add: algebra_simps)
    finally show ?thesis .
  qed
  have "haversine_a lat1 lng1 lat2 lng2 = (sin q)\<^sup>2 + cos (p - q) * cos (p + q) * s\<^sup>2"
    unfolding haversine_a_def Let_def l1 l2 q_def [symmetric] s_def [symmetric]
    by (simp add: power2_eq_square)
  also have "\<dots> = (sin q)\<^sup>2 * (1 - s\<^sup>2) + (cos p)\<^sup>2 * s\<^sup>2"
    unfolding cc by (simp add: algebra_simps)
  finally show ?thesis
    unfolding p_def q_def s_def .
qed

lemma haversine_a_bounds: "0 \<le> haversine_a lat1 lng1 lat2 lng2 \<and> haversine_a lat1 lng1 lat2 lng2 \<le> 1"
proof -
  define A where "A = (sin (radians (lat2 - lat1) / 2))\<^sup>2"
  define B where "B = (cos ((radians lat1 + radians lat2) / 2))\<^sup>2"
  define s where "s = (sin (radians (lng2 - lng1) / 2))\<^sup>2"
  have A: "0 \<le> A" "A \<le> 1" and B: "0 \<le> B" "B \<le> 1" and s: "0 \<le> s" "s \<le> 1"
    by (simp_all add: A_def B_def s_def abs_square_le_1)
  have eq: "haversine_a lat1 lng1 lat2 lng2 = A * (1 - s) + B * s"
    unfolding A_def B_def s_def by (rule haversine_a_mix)
  have lo: "0 \<le> A * (1 - s) + B * s"
    using A B s by simp
  have "A * (1 - s) \<le> 1 * (1 - s)" using A s by (intro mult_right_mono) simp_all
  moreover have "B * s \<le> 1 * s" using B s by (intro mult_right_mono) simp_all
  ultimately have hi: "A * (1 - s) + B * s \<le> 1" by simp
  show ?thesis unfolding eq using lo hi by simp
qed

lemma calcular_distancia_total: "\<exists>d. calcular_distancia lat1 lng1 lat2 lng2 = Inr d"
proof (cases "\<exists>a b c d. lat1 = Some a \<and> lng1 = Some b \<and> lat2 = Some c \<and> lng2 = Some d")
  case True
  then obtain a b c d where e: "lat1 = Some a" "lng1 = Some b" "lat2 = Some c" "lng2 = Some d"
    by blast
  show ?thesis
    using haversine_a_bounds [of a b c d] unfolding e
    by (simp add: py_sqrt_def Let_def)
next
  case False
  then show ?thesis
    by (cases lat1; cases lng1; cases lat2; cases lng2) simp_all
qed

text \<open>
  C9. The distance is symmetric, \<open>distance(a, b) = distance(b, a)\<close>, and the distance
  from a point to itself is 0. Both hold for all arguments, the coordinates that are
  zero or \<^verbatim>\<open>None\<close> included.
\<close>

theorem calcular_distancia_symmetry_identity:
  "calcular_distancia lat1 lng1 lat2 lng2 = calcular_distancia lat2 lng2 lat1 lng1 \<and>
   calcular_distancia lat1 lng1 lat1 lng1 = Inr 0"
proof -
  have s: "calcular_distancia lat1 lng1 lat2 lng2 = calcular_distancia lat2 lng2 lat1 lng1"
    by (cases lat1; cases lng1; cases lat2; cases lng2)
       (auto simp: haversine_a_sym [of _ _ _ _])
  have i: "calcular_distancia lat1 lng1 lat1 lng1 = Inr 0"
    by (cases lat1; cases lng1) (simp_all add: haversine_a_same py_sqrt_def atan2_def)
  show ?thesis using s i by simp
qed

text \<open>
  C10. As soon as one of the four coordinates is 0, the result is 0 whatever the other
  three are: a point on the equator or on the prime meridian is treated like a missing
  coordinate.
\<close>

theorem calcular_distancia_zero_coordinate:
  "lat1 = Some 0 \<or> lng1 = Some 0 \<or> lat2 = Some 0 \<or> lng2 = Some 0 \<Longrightarrow>
   calcular_distancia lat1 lng1 lat2 lng2 = Inr 0"
  by (cases lat1; cases lng1; cases lat2; cases lng2) auto

theorem calcular_distancia_zero_coordinate_witness:
  "calcular_distancia (Some 33.9616) (Some (-118.3531)) (Some 0) (Some (-78.4678)) = Inr 0 \<and>
   calcular_distancia (Some 51.4779) (Some 0) (Some 33.9616) (Some (-118.3531)) = Inr 0"
  using calcular_distancia_zero_coordinate [of "Some 33.9616" "Some (-118.3531)" "Some 0" "Some (-78.4678)"]
        calcular_distancia_zero_coordinate [of "Some 51.4779" "Some 0" "Some 33.9616" "Some (-118.3531)"]
  by simp

section \<open>Opportunity Ranker: properties\<close>

text \<open>
  C8. The difficulty label is EASY exactly when the review average is below 100, MEDIUM
  exactly when it is at least 100 and below 200, and HARD exactly when it is at least
  200; 99 is EASY, 100 and 199 are MEDIUM, 200 is HARD.
\<close>

theorem dificultad_thresholds:
  "(dificultad n = ''EASY'') = (n < 100) \<and>
   (dificultad n = ''MEDIUM'') = (100 \<le> n \<and> n < 200) \<and>
   (dificultad n = ''HARD'') = (200 \<le> n) \<and>
   dificultad 99 = ''EASY'' \<and> dificultad 100 = ''MEDIUM'' \<and>
   dificultad 199 = ''MEDIUM'' \<and> dificultad 200 = ''HARD''"
  by (simp add: dificultad_def)

section \<open>Point Analyzer: properties\<close>


lemma buscar_posicion_None:
  "buscar_posicion kws idx ps = None \<longleftrightarrow> (\<forall>p \<in> set ps. \<not> es_tu_negocio kws p)"
  by (induction ps arbitrary: idx) auto

lemma buscar_posicion_Some:
  "buscar_posicion kws idx ps = Some k \<longleftrightarrow>
     (\<exists>j < length ps. k = idx + j + 1 \<and> es_tu_negocio kws (ps ! j) \<and>
        (\<forall>i < j. \<not> es_tu_negocio kws (ps ! i)))"
proof (induction ps arbitrary: idx)
  case Nil
  then show ?case by simp
next
  case (Cons p ps)
  show ?case
  proof (cases "es_tu_negocio kws p")
    case True
    have "(\<exists>j < length (p # ps). k = idx + j + 1 \<and> es_tu_negocio kws ((p # ps) ! j) \<and>
            (\<forall>i < j. \<not> es_tu_negocio kws ((p # ps) ! i))) \<longleftrightarrow> k = idx + 1"
    proof
      assume "\<exists>j < length (p # ps). k = idx + j + 1 \<and> es_tu_negocio kws ((p # ps) ! j) \<and>
                (\<forall>i < j. \<not> es_tu_negocio kws ((p # ps) ! i))"
      then obtain j where j: "k = idx + j + 1" "\<forall>i < j. \<not> es_tu_negocio kws ((p # ps) ! i)"
        by blast
      have "j = 0"
      proof (rule ccontr)
        assume "j \<noteq> 0"
        then have "0 < j" by simp
        with j(2) have "\<not> es_tu_negocio kws ((p # ps) ! 0)" by blast
        with True show False by simp
      qed
      with j(1) show "k = idx + 1" by simp
    next
      assume "k = idx + 1"
      with True show "\<exists>j < length (p # ps). k = idx + j + 1 \<and> es_tu_negocio kws ((p # ps) ! j) \<and>
                (\<forall>i < j. \<not> es_tu_negocio kws ((p # ps) ! i))"
        by (intro exI [of _ 0]) simp
    qed
    with True show ?thesis by auto
  next
    case False
    have "(\<exists>j < length (p # ps). k = idx + j + 1 \<and> es_tu_negocio kws ((p # ps) ! j) \<and>
            (\<forall>i < j. \<not> es_tu_negocio kws ((p # ps) ! i))) \<longleftrightarrow>
          (\<exists>j < length ps. k = (idx + 1) + j + 1 \<and> es_tu_negocio kws (ps ! j) \<and>
            (\<forall>i < j. \<not> es_tu_negocio kws (ps ! i)))" (is "?L \<longleftrightarrow> ?R")
    proof
      assume ?L
      then obtain j where j: "j < length (p # ps)" "k = idx + j + 1"
        "es_tu_negocio kws ((p # ps) ! j)" "\<forall>i < j. \<not> es_tu_negocio kws ((p # ps) ! i)"
        by blast
      from j(3) False obtain j' where j': "j = Suc j'" by (cases j) auto
      have "\<forall>i < j'. \<not> es_tu_negocio kws (ps ! i)"
      proof (intro allI impI)
        fix i assume "i < j'"
        then have "Suc i < j" using j' by simp
        with j(4) have "\<not> es_tu_negocio kws ((p # ps) ! Suc i)" by blast
        then show "\<not> es_tu_negocio kws (ps ! i)" by simp
      qed
      with j j' show ?R by (intro exI [of _ j']) simp
    next
      assume ?R
      then obtain j where j: "j < length ps" "k = (idx + 1) + j + 1"
        "es_tu_negocio kws (ps ! j)" "\<forall>i < j. \<not> es_tu_negocio kws (ps ! i)"
        by blast
      have "\<forall>i < Suc j. \<not> es_tu_negocio kws ((p # ps) ! i)"
      proof (intro allI impI)
        fix i assume "i < Suc j"
        then show "\<not> es_tu_negocio kws ((p # ps) ! i)"
          using False j(4) by (cases i) auto
      qed
      with j show ?L by (intro exI [of _ "Suc j"]) simp
    qed
    with False Cons.IH [of "idx + 1"] show ?thesis by simp
  qed
qed

lemma analizar_ciudad_success:
  assumes "analizar_ciudad cfg city kw tr http db calls = (Some r, calls')"
  shows "\<exists>data. http = Response 200 (Some data) \<and> status data = Some ''OK''"
  using assms
  by (simp add: analizar_ciudad_def split: http_result.splits option.splits if_splits)

lemma analizar_ciudad_result:
  assumes "analizar_ciudad cfg city kw tr (Response code (Some data)) db calls = (Some r, calls')"
  shows "code = 200 \<and> status data = Some ''OK'' \<and>
         (\<exists>d. calcular_distancia (Some (base_lat cfg)) (Some (base_lng cfg))
                 (Some (city_lat city)) (Some (city_lng city)) = Inr d \<and>
               r = construir_resultado cfg city kw tr
                     (case results data of None \<Rightarrow> [] | Some ps \<Rightarrow> ps) d) \<and>
         guardar_resultado db r calls = (None, calls')"
  using assms
  by (auto simp: analizar_ciudad_def Let_def split: option.splits if_splits sum.splits prod.splits)

text \<open>
  C4. In every result the analyzer returns, \<open>aparece\<close> (found) is true exactly when
  \<open>posicion\<close> (rank position) is present, and the position, when present, is the
  1-based index of the first of the first 20 returned entities that the Presence Matcher
  accepts; it is absent exactly when the matcher accepts none of them.
\<close>

theorem analizar_ciudad_rank_position:
  assumes "analizar_ciudad cfg city kw tr (Response code (Some data)) db calls = (Some r, calls')"
    and "first20 = take 20 (case results data of None \<Rightarrow> [] | Some ps \<Rightarrow> ps)"
  shows "aparece r = (posicion r \<noteq> None) \<and>
         (\<forall>k. posicion r = Some k \<longleftrightarrow>
                1 \<le> k \<and> k \<le> length first20 \<and>
                es_tu_negocio (business_keywords cfg) (first20 ! (k - 1)) \<and>
                (\<forall>j < k - 1. \<not> es_tu_negocio (business_keywords cfg) (first20 ! j))) \<and>
         (posicion r = None \<longleftrightarrow> (\<forall>p \<in> set first20. \<not> es_tu_negocio (business_keywords cfg) p))"
proof -
  from analizar_ciudad_result [OF assms(1)] assms(2)
  have a: "aparece r = (posicion r \<noteq> None)"
    and p: "posicion r = buscar_posicion (business_keywords cfg) 0 first20"
    by (auto simp: construir_resultado_def Let_def)
  have "posicion r = Some k \<longleftrightarrow>
          1 \<le> k \<and> k \<le> length first20 \<and>
          es_tu_negocio (business_keywords cfg) (first20 ! (k - 1)) \<and>
          (\<forall>j < k - 1. \<not> es_tu_negocio (business_keywords cfg) (first20 ! j))" for k
  proof
    assume "posicion r = Some k"
    then obtain j where "j < length first20" "k = j + 1"
      "es_tu_negocio (business_keywords cfg) (first20 ! j)"
      "\<forall>i < j. \<not> es_tu_negocio (business_keywords cfg) (first20 ! i)"
      unfolding p buscar_posicion_Some by auto
    then show "1 \<le> k \<and> k \<le> length first20 \<and>
          es_tu_negocio (business_keywords cfg) (first20 ! (k - 1)) \<and>
          (\<forall>j < k - 1. \<not> es_tu_negocio (business_keywords cfg) (first20 ! j))"
      by simp
  next
    assume r: "1 \<le> k \<and> k \<le> length first20 \<and>
          es_tu_negocio (business_keywords cfg) (first20 ! (k - 1)) \<and>
          (\<forall>j < k - 1. \<not> es_tu_negocio (business_keywords cfg) (first20 ! j))"
    then have "k - 1 < length first20 \<and> k = 0 + (k - 1) + 1" by arith
    with r show "posicion r = Some k"
      unfolding p buscar_posicion_Some by blast
  qed
  with a p show ?thesis
    by (simp add: buscar_posicion_None)
qed

lemmas str_ev = es_tu_negocio_def py_lower_def lower_char_def py_strip_def py_isspace_def

lemma acme_no_sparkle: "\<not> es_tu_negocio (Some ''acme'')
     \<lparr>place_name = Some ''Sparkle Maids'', rating = x, user_ratings_total = y\<rparr>"
  by (simp add: str_ev)

lemma acme_no_clean_co: "\<not> es_tu_negocio (Some ''acme'')
     \<lparr>place_name = Some ''Clean Co'', rating = x, user_ratings_total = y\<rparr>"
  by (simp add: str_ev)

lemma acme_matches: "es_tu_negocio (Some ''acme'')
     \<lparr>place_name = Some ''ACME Cleaning'', rating = x, user_ratings_total = y\<rparr>"
  by (simp add: str_ev)

lemma py_round_values: "py_round 0 2 = 0" "py_round (9/2) 2 = 9/2"
  by (simp_all add: py_round_def Let_def)

lemma py_int_values: "py_int 0 = 0" "py_int 100 = 100"
  by (simp_all add: py_int_def)

lemmas analizar_ev = analizar_ciudad_def construir_resultado_def Let_def guardar_resultado_def py_sum_def
  haversine_a_same py_sqrt_def atan2_def py_round_values py_int_values
  acme_no_sparkle acme_no_clean_co acme_matches

theorem analizar_ciudad_rank_position_witness:
  "analizar_ciudad
     \<lparr>business_keywords = Some ''acme'', base_lat = 33.9616, base_lng = -118.3531\<rparr>
     \<lparr>city_name = ''Inglewood'', city_lat = 33.9616, city_lng = -118.3531,
      city_zip = Some ''90301''\<rparr>
     ''maid service'' ''tier_1_immediate''
     (Response 200 (Some \<lparr>status = Some ''OK'', results = Some
        [\<lparr>place_name = Some ''Sparkle Maids'', rating = Some 4, user_ratings_total = Some 50\<rparr>,
         \<lparr>place_name = Some ''Clean Co'', rating = Some 5, user_ratings_total = Some 150\<rparr>,
         \<lparr>place_name = Some ''ACME Cleaning'', rating = Some 4.8, user_ratings_total = Some 300\<rparr>]\<rparr>))
     \<lparr>cursor_ok = True, execute_ok = True, commit_ok = True, rollback_ok = True\<rparr> []
   = (Some \<lparr>ciudad = ''Inglewood'', zip_code = ''90301'', tier = ''tier_1_immediate'',
            keyword = ''maid service'', aparece = True, posicion = Some 3, distancia_km = 0,
            lat = 33.9616, lng = -118.3531, total_competidores = 3, rating_promedio = 4.5,
            reviews_promedio = 100\<rparr>,
      [Execute_insert \<lparr>ciudad = ''Inglewood'', zip_code = ''90301'', tier = ''tier_1_immediate'',
            keyword = ''maid service'', aparece = True, posicion = Some 3, distancia_km = 0,
            lat = 33.9616, lng = -118.3531, total_competidores = 3, rating_promedio = 4.5,
            reviews_promedio = 100\<rparr>, Commit]) \<and>
   es_tu_negocio (Some ''acme'')
     \<lparr>place_name = Some ''ACME Cleaning'', rating = Some 4.8, user_ratings_total = Some 300\<rparr> \<and>
   \<not> es_tu_negocio (Some ''acme'')
     \<lparr>place_name = Some ''Sparkle Maids'', rating = Some 4, user_ratings_total = Some 50\<rparr> \<and>
   \<not> es_tu_negocio (Some ''acme'')
     \<lparr>place_name = Some ''Clean Co'', rating = Some 5, user_ratings_total = Some 150\<rparr>"
  (is "?H \<and> ?C")
proof -
  have h: ?H
    by (simp add: analizar_ev)
  from analizar_ciudad_rank_position [OF h refl] show ?thesis
    using h by (simp add: acme_no_sparkle acme_no_clean_co acme_matches)
qed


lemma py_int_floor: "0 \<le> x \<Longrightarrow> py_int x = \<lfloor>x\<rfloor>"
  by (simp add: py_int_def)

lemma py_int_nonneg_div:
  assumes "0 \<le> s" "0 < n"
  shows "py_int (real_of_int s / real n) = s div int n"
proof -
  have "0 \<le> real_of_int s / real n" using assms by simp
  then have "py_int (real_of_int s / real n) = \<lfloor>real_of_int s / real_of_int (int n)\<rfloor>"
    by (simp add: py_int_def)
  also have "\<dots> = s div int n" by (rule floor_divide_of_int_eq)
  finally show ?thesis .
qed

lemma py_round_close: "\<bar>py_round x 2 - x\<bar> \<le> 1 / 200"
proof -
  define y where "y = x * 100"
  define f where "f = \<lfloor>y\<rfloor>"
  define d where "d = y - of_int f"
  define p where "p = py_round x 2"
  have d: "0 \<le> d" "d < 1" unfolding d_def f_def by linarith+
  have x: "x = (of_int f + d) / 100" unfolding d_def y_def by simp
  have r: "p = of_int (if d < 1 / 2 then f
                 else if 1 / 2 < d then f + 1
                 else if even f then f else f + 1) / 100"
    unfolding p_def py_round_def Let_def d_def f_def y_def by simp
  consider (lo) "d < 1 / 2" | (hi) "1 / 2 < d" | (tie) "d = 1 / 2"
    by linarith
  then have "\<bar>p - x\<bar> \<le> 1 / 200"
  proof cases
    case lo
    with r have "p - x = - d / 100" by (simp add: x field_simps)
    with d lo show ?thesis by simp
  next
    case hi
    with r have "p - x = (1 - d) / 100" by (simp add: x field_simps)
    with d hi show ?thesis by simp
  next
    case tie
    with r have "p - x = - d / 100 \<or> p - x = (1 - d) / 100"
      by (simp add: x field_simps)
    with tie show ?thesis by auto
  qed
  then show ?thesis unfolding p_def .
qed





lemma analizar_ciudad_total_competidores:
  assumes "analizar_ciudad cfg city kw tr (Response code (Some data)) db calls = (Some r, calls')"
    and "places = (case results data of None \<Rightarrow> [] | Some ps \<Rightarrow> ps)"
  shows "total_competidores r = length places"
    and "total_competidores r =
           length (filter (\<lambda>p. \<not> es_tu_negocio (business_keywords cfg) p) places) +
           length (filter (es_tu_negocio (business_keywords cfg)) places)"
proof -
  from analizar_ciudad_result [OF assms(1)] assms(2) obtain d where
    "r = construir_resultado cfg city kw tr places d" by blast
  then show t: "total_competidores r = length places"
    by (simp add: construir_resultado_def Let_def)
  have "length places =
          length (filter (es_tu_negocio (business_keywords cfg)) places) +
          length (filter (\<lambda>p. \<not> es_tu_negocio (business_keywords cfg) p) places)"
    by (rule sum_length_filter_compl [symmetric])
  with t show "total_competidores r =
           length (filter (\<lambda>p. \<not> es_tu_negocio (business_keywords cfg) p) places) +
           length (filter (es_tu_negocio (business_keywords cfg)) places)"
    by simp
qed

text \<open>
  C1. The claim is that \<open>total_competidores\<close> (competitor count) is the number of
  returned entities that the matcher does not accept. The code stores the number of all
  returned entities: with the business itself second of two entities, the field is 2 and
  the competitor set has one element.
\<close>

theorem analizar_ciudad_total_competidores_counts_subject:
  "analizar_ciudad
     \<lparr>business_keywords = Some ''acme'', base_lat = 33.9616, base_lng = -118.3531\<rparr>
     \<lparr>city_name = ''Inglewood'', city_lat = 33.9616, city_lng = -118.3531, city_zip = None\<rparr>
     ''cleaning services'' ''tier_1_immediate''
     (Response 200 (Some \<lparr>status = Some ''OK'', results = Some
        [\<lparr>place_name = Some ''Sparkle Maids'', rating = Some 4, user_ratings_total = Some 50\<rparr>,
         \<lparr>place_name = Some ''ACME Cleaning'', rating = Some 4.8, user_ratings_total = Some 300\<rparr>]\<rparr>))
     \<lparr>cursor_ok = True, execute_ok = True, commit_ok = True, rollback_ok = True\<rparr> []
   = (Some \<lparr>ciudad = ''Inglewood'', zip_code = '''', tier = ''tier_1_immediate'',
            keyword = ''cleaning services'', aparece = True, posicion = Some 2, distancia_km = 0,
            lat = 33.9616, lng = -118.3531, total_competidores = 2, rating_promedio = 4,
            reviews_promedio = 50\<rparr>,
      [Execute_insert \<lparr>ciudad = ''Inglewood'', zip_code = '''', tier = ''tier_1_immediate'',
            keyword = ''cleaning services'', aparece = True, posicion = Some 2, distancia_km = 0,
            lat = 33.9616, lng = -118.3531, total_competidores = 2, rating_promedio = 4,
            reviews_promedio = 50\<rparr>, Commit]) \<and>
   filter (\<lambda>p. \<not> es_tu_negocio (Some ''acme'') p)
     [\<lparr>place_name = Some ''Sparkle Maids'', rating = Some 4, user_ratings_total = Some 50\<rparr>,
      \<lparr>place_name = Some ''ACME Cleaning'', rating = Some 4.8, user_ratings_total = Some 300\<rparr>]
   = [\<lparr>place_name = Some ''Sparkle Maids'', rating = Some 4, user_ratings_total = Some 50\<rparr>]"
  by (simp add: analizar_ciudad_def construir_resultado_def Let_def guardar_resultado_def
        py_sum_def haversine_a_same py_sqrt_def atan2_def py_round_def py_int_def
        acme_no_sparkle acme_matches)

lemma analizar_ciudad_no_success:
  assumes "http = RequestFailed \<or>
           (\<exists>code body. http = Response code body \<and>
              (code \<noteq> 200 \<or> body = None \<or> (\<exists>data. body = Some data \<and> status data \<noteq> Some ''OK'')))"
  shows "analizar_ciudad cfg city kw tr http db calls = (None, calls)"
  using assms
  by (auto simp: analizar_ciudad_def split: option.splits)

lemma guardar_resultado_returns:
  assumes "(cursor_ok db \<and> execute_ok db \<and> commit_ok db) \<or> rollback_ok db"
  shows "\<exists>w. guardar_resultado db res calls = (None, calls @ w) \<and>
             length (filter (\<lambda>c. \<exists>x. c = Execute_insert x) w) \<le> 1 \<and>
             (cursor_ok db \<longrightarrow> filter (\<lambda>c. \<exists>x. c = Execute_insert x) w = [Execute_insert res])"
  using assms by (auto simp: guardar_resultado_def)

lemma guardar_resultado_rollback_raises:
  assumes "\<not> (cursor_ok db \<and> execute_ok db \<and> commit_ok db)" "\<not> rollback_ok db"
  shows "fst (guardar_resultado db res calls) = Some DbError"
  using assms by (auto simp: guardar_resultado_def)

lemma analizar_ciudad_success_returns:
  assumes "status data = Some ''OK''"
    and "(cursor_ok db \<and> execute_ok db \<and> commit_ok db) \<or> rollback_ok db"
  shows "\<exists>r w. analizar_ciudad cfg city kw tr (Response 200 (Some data)) db calls
                  = (Some r, calls @ w) \<and>
               length (filter (\<lambda>c. \<exists>x. c = Execute_insert x) w) \<le> 1 \<and>
               (cursor_ok db \<longrightarrow> filter (\<lambda>c. \<exists>x. c = Execute_insert x) w = [Execute_insert r])"
proof -
  obtain d where d: "calcular_distancia (Some (base_lat cfg)) (Some (base_lng cfg))
      (Some (city_lat city)) (Some (city_lng city)) = Inr d"
    using calcular_distancia_total by blast
  define r where "r = construir_resultado cfg city kw tr
      (case results data of None \<Rightarrow> [] | Some ps \<Rightarrow> ps) d"
  from guardar_resultado_returns [OF assms(2), of r calls] obtain w where
    w: "guardar_resultado db r calls = (None, calls @ w)"
      "length (filter (\<lambda>c. \<exists>x. c = Execute_insert x) w) \<le> 1"
      "cursor_ok db \<longrightarrow> filter (\<lambda>c. \<exists>x. c = Execute_insert x) w = [Execute_insert r]"
    by blast
  have "analizar_ciudad cfg city kw tr (Response 200 (Some data)) db calls = (Some r, calls @ w)"
    by (simp add: analizar_ciudad_def assms(1) d r_def [symmetric] w(1) Let_def
          del: calcular_distancia.simps)
  with w show ?thesis by blast
qed

lemma analizar_ciudad_rollback_raises:
  assumes "status data = Some ''OK''"
    and "\<not> (cursor_ok db \<and> execute_ok db \<and> commit_ok db)" "\<not> rollback_ok db"
  shows "fst (analizar_ciudad cfg city kw tr (Response 200 (Some data)) db calls) = None"
proof -
  obtain d where d: "calcular_distancia (Some (base_lat cfg)) (Some (base_lng cfg))
      (Some (city_lat city)) (Some (city_lng city)) = Inr d"
    using calcular_distancia_total by blast
  define r where "r = construir_resultado cfg city kw tr
      (case results data of None \<Rightarrow> [] | Some ps \<Rightarrow> ps) d"
  from guardar_resultado_rollback_raises [OF assms(2,3), of r calls]
  obtain c where "guardar_resultado db r calls = (Some DbError, c)"
    by (cases "guardar_resultado db r calls") auto
  then show ?thesis
    by (simp add: analizar_ciudad_def assms(1) d r_def [symmetric] Let_def
          del: calcular_distancia.simps)
qed

text \<open>
  C7. The claim is that a failed search gives no result and no write, that a successful
  one gives the result with one write, and that a persistence failure does not keep the
  result from being returned. The first part is \<open>analizar_ciudad_no_success\<close>, and the
  result is returned whenever the write succeeds or the rollback of a failed write does
  (\<open>analizar_ciudad_success_returns\<close>). When the insert fails and the rollback in the
  handler raises as well, the exception leaves \<^verbatim>\<open>_guardar_resultado\<close> and the
  analyzer returns \<^verbatim>\<open>None\<close> after a successful search.
\<close>

theorem analizar_ciudad_lost_on_failed_rollback:
  "analizar_ciudad
     \<lparr>business_keywords = Some ''acme'', base_lat = 33.9616, base_lng = -118.3531\<rparr>
     \<lparr>city_name = ''Inglewood'', city_lat = 33.9616, city_lng = -118.3531, city_zip = None\<rparr>
     ''maid service'' ''tier_1_immediate''
     (Response 200 (Some \<lparr>status = Some ''OK'', results = Some
        [\<lparr>place_name = Some ''Sparkle Maids'', rating = Some 4, user_ratings_total = Some 50\<rparr>]\<rparr>))
     \<lparr>cursor_ok = True, execute_ok = False, commit_ok = True, rollback_ok = False\<rparr> []
   = (None,
      [Execute_insert \<lparr>ciudad = ''Inglewood'', zip_code = '''', tier = ''tier_1_immediate'',
            keyword = ''maid service'', aparece = False, posicion = None, distancia_km = 0,
            lat = 33.9616, lng = -118.3531, total_competidores = 1, rating_promedio = 4,
            reviews_promedio = 50\<rparr>, Rollback])"
  by (simp add: analizar_ciudad_def construir_resultado_def Let_def guardar_resultado_def
        py_sum_def haversine_a_same py_sqrt_def atan2_def py_round_def py_int_def
        acme_no_sparkle)

section \<open>Dominance Aggregator: properties\<close>

lemma foldl_max_eq:
  "foldl (\<lambda>m y. if m < y then y else m) (x::real) xs = Max (set (x # xs))"
proof -
  have "(\<lambda>(y::real) m. if m < y then y else m) = max"
    by (auto simp: fun_eq_iff max_def)
  then have "foldl (\<lambda>m y. if m < y then y else m) x xs = fold max xs x"
    by (simp add: foldl_conv_fold)
  then show ?thesis
    by (simp only: Max.set_eq_fold)
qed

lemma foldl_min_eq:
  "foldl (\<lambda>m y. if y < m then y else m) (x::real) xs = Min (set (x # xs))"
proof -
  have "(\<lambda>(y::real) m. if y < m then y else m) = min"
    by (auto simp: fun_eq_iff min_def)
  then have "foldl (\<lambda>m y. if y < m then y else m) x xs = fold min xs x"
    by (simp add: foldl_conv_fold)
  then show ?thesis
    by (simp only: Min.set_eq_fold)
qed

lemma py_max_eq: "xs \<noteq> [] \<Longrightarrow> py_max xs = Inr (Max (set xs))"
  by (cases xs) (simp_all add: foldl_max_eq)

lemma py_min_eq: "xs \<noteq> [] \<Longrightarrow> py_min xs = Inr (Min (set xs))"
  by (cases xs) (simp_all add: foldl_min_eq)

lemma sum_posiciones_eq:
  "\<forall>r \<in> set rs. posicion r \<noteq> None \<Longrightarrow>
   sum_posiciones acc rs = Inr (acc + (\<Sum>r\<leftarrow>rs. int (the (posicion r))))"
  by (induction rs arbitrary: acc) auto

lemma sum_posiciones_error:
  "\<exists>r \<in> set rs. posicion r = None \<Longrightarrow> sum_posiciones acc rs = Inl TypeError"
  by (induction rs arbitrary: acc) (auto split: option.splits)

lemma real_sum_list_int: "real_of_int (\<Sum>r\<leftarrow>rs. int (f r)) = (\<Sum>r\<leftarrow>rs. real (f r))"
  by (induction rs) simp_all

text \<open>
  C5. For results in which every found result has a position (the invariant of the
  analyzer's results): when some result is found, the aggregator reports as dominance
  radius the maximum of \<open>distancia_km\<close> over the found results, as minimum presence
  distance the minimum, and as average position the arithmetic mean of their positions;
  when none is found it reports "no appearances" and raises nothing.
\<close>

theorem generar_mapa_dominio_figures:
  assumes "\<forall>r \<in> set resultados. aparece r \<longrightarrow> posicion r \<noteq> None"
    and "present = filter aparece resultados"
  shows "(present = [] \<longrightarrow> generar_mapa_dominio resultados = Inr No_appearances) \<and>
         (present \<noteq> [] \<longrightarrow>
            (\<exists>dom. generar_mapa_dominio resultados = Inr (Dominance dom) \<and>
               distancia_max dom = Max (distancia_km ` set present) \<and>
               distancia_min dom = Min (distancia_km ` set present) \<and>
               posicion_promedio dom =
                 (\<Sum>r\<leftarrow>present. real (the (posicion r))) / real (length present)))"
proof (intro conjI impI)
  assume "present = []"
  then show "generar_mapa_dominio resultados = Inr No_appearances"
    unfolding assms(2) by (simp add: generar_mapa_dominio_def)
next
  assume ne: "present \<noteq> []"
  then have m: "map distancia_km present \<noteq> []" by simp
  have p: "\<forall>r \<in> set present. posicion r \<noteq> None"
    using assms by auto
  have "generar_mapa_dominio resultados =
          Inr (Dominance \<lparr>distancia_max = Max (distancia_km ` set present),
                 distancia_min = Min (distancia_km ` set present),
                 posicion_promedio =
                   (\<Sum>r\<leftarrow>present. real (the (posicion r))) / real (length present)\<rparr>)"
    unfolding generar_mapa_dominio_def Let_def assms(2) [symmetric]
    using ne by (simp add: py_max_eq [OF m] py_min_eq [OF m] sum_posiciones_eq [OF p]
        real_sum_list_int)
  then show "\<exists>dom. generar_mapa_dominio resultados = Inr (Dominance dom) \<and>
               distancia_max dom = Max (distancia_km ` set present) \<and>
               distancia_min dom = Min (distancia_km ` set present) \<and>
               posicion_promedio dom =
                 (\<Sum>r\<leftarrow>present. real (the (posicion r))) / real (length present)"
    by simp
qed

theorem generar_mapa_dominio_figures_witness:
  "generar_mapa_dominio
      [\<lparr>ciudad = ''Lennox'', zip_code = ''90304'', tier = ''tier_1_immediate'',
        keyword = ''maid service'', aparece = True, posicion = Some 1, distancia_km = 2,
        lat = 33.9386, lng = -118.3531, total_competidores = 20, rating_promedio = 4.6,
        reviews_promedio = 80\<rparr>,
       \<lparr>ciudad = ''Hawthorne'', zip_code = ''90250'', tier = ''tier_2_nearby'',
        keyword = ''maid service'', aparece = True, posicion = Some 5, distancia_km = 9,
        lat = 33.9164, lng = -118.3526, total_competidores = 20, rating_promedio = 4.4,
        reviews_promedio = 120\<rparr>,
       \<lparr>ciudad = ''Torrance'', zip_code = ''90501'', tier = ''tier_3_medium'',
        keyword = ''maid service'', aparece = False, posicion = None, distancia_km = 14,
        lat = 33.8358, lng = -118.3406, total_competidores = 20, rating_promedio = 4.5,
        reviews_promedio = 210\<rparr>,
       \<lparr>ciudad = ''Westchester'', zip_code = ''90045'', tier = ''tier_1_immediate'',
        keyword = ''maid service'', aparece = True, posicion = Some 3, distancia_km = 4,
        lat = 33.9589, lng = -118.4031, total_competidores = 20, rating_promedio = 4.7,
        reviews_promedio = 95\<rparr>]
   = Inr (Dominance \<lparr>distancia_max = 9, distancia_min = 2, posicion_promedio = 3\<rparr>)"
  (is "generar_mapa_dominio ?rs = ?d")
proof -
  have h: "\<forall>r \<in> set ?rs. aparece r \<longrightarrow> posicion r \<noteq> None"
    by simp
  have c: "generar_mapa_dominio ?rs = ?d"
    by (simp add: generar_mapa_dominio_def)
  from generar_mapa_dominio_figures [OF h refl] c show ?thesis
    by blast
qed

section \<open>Opportunity Ranker: candidates and ranking\<close>

lemma update_fresh: "k \<notin> fst ` set d \<Longrightarrow> AList.update k v d = d @ [(k, v)]"
  by (induction d) auto

lemma find_filter_hd:
  "List.find P xs = (case filter P xs of [] \<Rightarrow> None | x # ys \<Rightarrow> Some x)"
  by (induction xs) auto

lemma ciudades_oportunidad_closed:
  assumes "set cs \<subseteq> ciudad ` set no_ap" "distinct cs" "set cs \<inter> fst ` set d = {}"
  shows "ciudades_oportunidad no_ap cs d =
           Inr (d @ map (\<lambda>c. (c, oportunidad_de (hd (filter (\<lambda>r. ciudad r = c) no_ap)))) cs)"
  using assms
proof (induction cs arbitrary: d)
  case Nil
  then show ?case by simp
next
  case (Cons c cs)
  from Cons.prems(1) obtain x where x: "x \<in> set no_ap" "ciudad x = c" by auto
  then have "filter (\<lambda>r. ciudad r = c) no_ap \<noteq> []"
    by (auto simp: filter_empty_conv)
  then obtain y ys where y: "filter (\<lambda>r. ciudad r = c) no_ap = y # ys"
    by (cases "filter (\<lambda>r. ciudad r = c) no_ap") auto
  from Cons.prems(3) have fresh: "c \<notin> fst ` set d" by auto
  have d': "set cs \<inter> fst ` set (d @ [(c, oportunidad_de y)]) = {}"
    using Cons.prems(2,3) by auto
  have "ciudades_oportunidad no_ap (c # cs) d =
          ciudades_oportunidad no_ap cs (d @ [(c, oportunidad_de y)])"
    by (simp add: y update_fresh [OF fresh])
  also have "\<dots> = Inr ((d @ [(c, oportunidad_de y)]) @
      map (\<lambda>c. (c, oportunidad_de (hd (filter (\<lambda>r. ciudad r = c) no_ap)))) cs)"
    using Cons.prems(1,2) by (intro Cons.IH [OF _ _ d']) auto
  finally show ?case by (simp add: y)
qed

lemma insort_key_map:
  "insort_key f (g x) (map g xs) = map g (insort_key (\<lambda>y. f (g y)) x xs)"
  by (induction xs) auto

lemma sort_key_map: "sort_key f (map g xs) = map g (sort_key (\<lambda>y. f (g y)) xs)"
  by (induction xs) (simp_all add: insort_key_map)

lemma enumerate_map:
  "enumerate n (map g xs) = map (\<lambda>(i, x). (i, g x)) (enumerate n xs)"
  by (induction xs arbitrary: n) auto

lemma first_no_aparicion:
  assumes "c \<in> ciudad ` set (filter (\<lambda>r. \<not> aparece r) resultados)"
    and "x = hd (filter (\<lambda>r. ciudad r = c) (filter (\<lambda>r. \<not> aparece r) resultados))"
  shows "ciudad x = c"
    and "List.find (\<lambda>q. \<not> aparece q \<and> ciudad q = c) resultados = Some x"
    and "\<not> aparece x"
proof -
  let ?no_ap = "filter (\<lambda>r. \<not> aparece r) resultados"
  from assms have "filter (\<lambda>r. ciudad r = c) ?no_ap \<noteq> []"
    by (auto simp: filter_empty_conv)
  then obtain y ys where y: "filter (\<lambda>r. ciudad r = c) ?no_ap = y # ys"
    by (cases "filter (\<lambda>r. ciudad r = c) ?no_ap") auto
  have rep: "x = y"
    unfolding assms(2) y by simp
  have "y \<in> set (y # ys)" by simp
  then have "y \<in> set (filter (\<lambda>r. ciudad r = c) ?no_ap)" by (simp only: y)
  then have yp: "ciudad y = c" "\<not> aparece y" by simp_all
  show "ciudad x = c" "\<not> aparece x"
    unfolding rep by (fact yp)+
  have "filter (\<lambda>q. \<not> aparece q \<and> ciudad q = c) resultados = y # ys"
    using y by (simp add: conj_commute)
  then show "List.find (\<lambda>q. \<not> aparece q \<and> ciudad q = c) resultados = Some x"
    unfolding rep by (simp add: find_filter_hd)
qed

lemma generar_recomendaciones_expansion_closed:
  assumes "iteration_order resultados orden"
  shows "generar_recomendaciones_expansion resultados orden =
           Inr (map (\<lambda>(i, r). (i, ciudad r, oportunidad_de r, dificultad (reviews_promedio r)))
                  (enumerate 1 (take 10 (sort_key distancia_km
                     (map (\<lambda>c. hd (filter (\<lambda>r. ciudad r = c)
                                       (filter (\<lambda>r. \<not> aparece r) resultados)))
                        orden)))))"
proof -
  let ?no_ap = "filter (\<lambda>r. \<not> aparece r) resultados"
  let ?rep = "\<lambda>c. hd (filter (\<lambda>r. ciudad r = c) ?no_ap)"
  let ?g = "\<lambda>r. (ciudad r, oportunidad_de r)"
  from assms have o: "distinct orden" "set orden = ciudad ` set ?no_ap"
    by (simp_all add: iteration_order_def)
  have "ciudades_oportunidad ?no_ap orden [] =
          Inr ([] @ map (\<lambda>c. (c, oportunidad_de (hd (filter (\<lambda>r. ciudad r = c) ?no_ap)))) orden)"
    using o by (intro ciudades_oportunidad_closed) auto
  also have "map (\<lambda>c. (c, oportunidad_de (hd (filter (\<lambda>r. ciudad r = c) ?no_ap)))) orden =
             map ?g (map ?rep orden)"
  proof -
    have "(c, oportunidad_de (hd (filter (\<lambda>r. ciudad r = c) ?no_ap))) = ?g (?rep c)"
      if "c \<in> set orden" for c
      using first_no_aparicion(1) [of c resultados, OF _ refl] that o(2)
      by simp
    then show ?thesis by simp
  qed
  finally have d: "ciudades_oportunidad ?no_ap orden [] = Inr (map ?g (map ?rep orden))"
    by simp
  have s: "sort_key (\<lambda>x. distancia (snd x)) (map ?g (map ?rep orden)) =
           map ?g (sort_key distancia_km (map ?rep orden))"
    by (simp add: sort_key_map oportunidad_de_def)
  have l: "map (\<lambda>(i, c, data). (i, c, data, dificultad (reviews_competidores data)))
             (map (\<lambda>(i, x). (i, ?g x)) E) =
           map (\<lambda>(i, r). (i, ciudad r, oportunidad_de r, dificultad (reviews_promedio r))) E"
    for E :: "(nat \<times> resultado) list"
    by (simp add: case_prod_unfold oportunidad_de_def)
  have "generar_recomendaciones_expansion resultados orden =
          Inr (map (\<lambda>(i, c, data). (i, c, data, dificultad (reviews_competidores data)))
                (enumerate 1 (take 10 (sort_key (\<lambda>x. distancia (snd x))
                   (map ?g (map ?rep orden))))))"
    by (simp only: generar_recomendaciones_expansion_def Let_def d sum.case)
  also have "\<dots> = Inr (map (\<lambda>(i, c, data). (i, c, data, dificultad (reviews_competidores data)))
                (map (\<lambda>(i, x). (i, ?g x))
                   (enumerate 1 (take 10 (sort_key distancia_km (map ?rep orden))))))"
    by (simp only: s take_map enumerate_map)
  finally show ?thesis
    by (simp only: l)
qed

text \<open>
  C3 (amended). For every result collection and every order in which the set of
  location names is iterated: the representative of a location is the first non-present
  result for it in input order; the representatives, taken in the iteration order of the
  set, are sorted ascending by \<open>distancia_km\<close> by a stable sort, so that equal distances
  keep the iteration order of the set (which need not be the input order); the rows are
  the first 10 of the sorted list, numbered from 1 and labelled.
\<close>

theorem generar_recomendaciones_expansion_ranking:
  assumes "iteration_order resultados orden"
  shows "\<exists>reps ranked.
           map ciudad reps = orden \<and>
           (\<forall>r \<in> set reps.
              List.find (\<lambda>q. \<not> aparece q \<and> ciudad q = ciudad r) resultados = Some r) \<and>
           mset ranked = mset reps \<and>
           sorted (map distancia_km ranked) \<and>
           (\<forall>k. filter (\<lambda>r. distancia_km r = k) ranked = filter (\<lambda>r. distancia_km r = k) reps) \<and>
           generar_recomendaciones_expansion resultados orden =
             Inr (map (\<lambda>(i, r). (i, ciudad r, oportunidad_de r, dificultad (reviews_promedio r)))
                    (enumerate 1 (take 10 ranked)))"
proof -
  let ?no_ap = "filter (\<lambda>r. \<not> aparece r) resultados"
  let ?rep = "\<lambda>c. hd (filter (\<lambda>r. ciudad r = c) ?no_ap)"
  let ?reps = "map ?rep orden"
  from assms have o: "set orden = ciudad ` set ?no_ap"
    by (simp add: iteration_order_def)
  have c: "ciudad (?rep c) = c" if "c \<in> set orden" for c
    using first_no_aparicion(1) [of c resultados, OF _ refl] that o by simp
  then have 1: "map ciudad ?reps = orden"
    by (simp add: map_idI)
  have 2: "\<forall>r \<in> set ?reps.
             List.find (\<lambda>q. \<not> aparece q \<and> ciudad q = ciudad r) resultados = Some r"
  proof
    fix r assume "r \<in> set ?reps"
    then obtain c where cr: "c \<in> set orden" "r = ?rep c" by auto
    from first_no_aparicion(2) [of c resultados r] cr o c [OF cr(1)]
    show "List.find (\<lambda>q. \<not> aparece q \<and> ciudad q = ciudad r) resultados = Some r"
      by simp
  qed
  have 3: "mset (sort_key distancia_km ?reps) = mset ?reps"
    by simp
  have 4: "sorted (map distancia_km (sort_key distancia_km ?reps))"
    by (rule sorted_sort_key)
  have 5: "\<forall>k. filter (\<lambda>r. distancia_km r = k) (sort_key distancia_km ?reps) =
               filter (\<lambda>r. distancia_km r = k) ?reps"
    by (simp add: sort_key_stable)
  from 1 2 3 4 5 generar_recomendaciones_expansion_closed [OF assms]
  show ?thesis by blast
qed

theorem generar_recomendaciones_expansion_ranking_witness:
  "iteration_order
     [\<lparr>ciudad = ''Hawthorne'', zip_code = ''90250'', tier = ''tier_2_nearby'',
        keyword = ''maid service'', aparece = False, posicion = None,
        distancia_km = 5, lat = 33.9164, lng = -118.3526, total_competidores = 20,
        rating_promedio = 4.5, reviews_promedio = 80\<rparr>,
      \<lparr>ciudad = ''Torrance'', zip_code = ''90501'', tier = ''tier_3_medium'',
        keyword = ''house cleaning'', aparece = False, posicion = None,
        distancia_km = 14, lat = 33.8358, lng = -118.3406, total_competidores = 19,
        rating_promedio = 4.3, reviews_promedio = 250\<rparr>,
      \<lparr>ciudad = ''El Segundo'', zip_code = ''90245'', tier = ''tier_2_nearby'',
        keyword = ''maid service'', aparece = False, posicion = None,
        distancia_km = 5, lat = 33.9192, lng = -118.4165, total_competidores = 18,
        rating_promedio = 4.4, reviews_promedio = 210\<rparr>,
      \<lparr>ciudad = ''Lennox'', zip_code = ''90304'', tier = ''tier_1_immediate'',
        keyword = ''maid service'', aparece = True, posicion = Some 1,
        distancia_km = 2.56, lat = 33.9386, lng = -118.3531, total_competidores = 20,
        rating_promedio = 4.6, reviews_promedio = 90\<rparr>,
      \<lparr>ciudad = ''Torrance'', zip_code = ''90501'', tier = ''tier_3_medium'',
        keyword = ''maid service'', aparece = False, posicion = None,
        distancia_km = 14, lat = 33.8358, lng = -118.3406, total_competidores = 20,
        rating_promedio = 4.5, reviews_promedio = 120\<rparr>,
      \<lparr>ciudad = ''Lennox'', zip_code = ''90304'', tier = ''tier_1_immediate'',
        keyword = ''house cleaning'', aparece = False, posicion = None,
        distancia_km = 2.56, lat = 33.9386, lng = -118.3531, total_competidores = 20,
        rating_promedio = 4.2, reviews_promedio = 60\<rparr>]
     [''Torrance'', ''Lennox'', ''El Segundo'', ''Hawthorne''] \<and>
   generar_recomendaciones_expansion
     [\<lparr>ciudad = ''Hawthorne'', zip_code = ''90250'', tier = ''tier_2_nearby'',
        keyword = ''maid service'', aparece = False, posicion = None,
        distancia_km = 5, lat = 33.9164, lng = -118.3526, total_competidores = 20,
        rating_promedio = 4.5, reviews_promedio = 80\<rparr>,
      \<lparr>ciudad = ''Torrance'', zip_code = ''90501'', tier = ''tier_3_medium'',
        keyword = ''house cleaning'', aparece = False, posicion = None,
        distancia_km = 14, lat = 33.8358, lng = -118.3406, total_competidores = 19,
        rating_promedio = 4.3, reviews_promedio = 250\<rparr>,
      \<lparr>ciudad = ''El Segundo'', zip_code = ''90245'', tier = ''tier_2_nearby'',
        keyword = ''maid service'', aparece = False, posicion = None,
        distancia_km = 5, lat = 33.9192, lng = -118.4165, total_competidores = 18,
        rating_promedio = 4.4, reviews_promedio = 210\<rparr>,
      \<lparr>ciudad = ''Lennox'', zip_code = ''90304'', tier = ''tier_1_immediate'',
        keyword = ''maid service'', aparece = True, posicion = Some 1,
        distancia_km = 2.56, lat = 33.9386, lng = -118.3531, total_competidores = 20,
        rating_promedio = 4.6, reviews_promedio = 90\<rparr>,
      \<lparr>ciudad = ''Torrance'', zip_code = ''90501'', tier = ''tier_3_medium'',
        keyword = ''maid service'', aparece = False, posicion = None,
        distancia_km = 14, lat = 33.8358, lng = -118.3406, total_competidores = 20,
        rating_promedio = 4.5, reviews_promedio = 120\<rparr>,
      \<lparr>ciudad = ''Lennox'', zip_code = ''90304'', tier = ''tier_1_immediate'',
        keyword = ''house cleaning'', aparece = False, posicion = None,
        distancia_km = 2.56, lat = 33.9386, lng = -118.3531, total_competidores = 20,
        rating_promedio = 4.2, reviews_promedio = 60\<rparr>]
     [''Torrance'', ''Lennox'', ''El Segundo'', ''Hawthorne'']
   = Inr [(1, ''Lennox'', \<lparr>distancia = 2.56, tier_oportunidad = ''tier_1_immediate'', competidores = 20,
             rating_competidores = 4.2, reviews_competidores = 60\<rparr>, ''EASY''),
          (2, ''El Segundo'', \<lparr>distancia = 5, tier_oportunidad = ''tier_2_nearby'', competidores = 18,
             rating_competidores = 4.4, reviews_competidores = 210\<rparr>, ''HARD''),
          (3, ''Hawthorne'', \<lparr>distancia = 5, tier_oportunidad = ''tier_2_nearby'', competidores = 20,
             rating_competidores = 4.5, reviews_competidores = 80\<rparr>, ''EASY''),
          (4, ''Torrance'', \<lparr>distancia = 14, tier_oportunidad = ''tier_3_medium'', competidores = 19,
             rating_competidores = 4.3, reviews_competidores = 250\<rparr>, ''HARD'')]"
  (is "?H \<and> ?C")
proof -
  have h: ?H
    by (simp add: iteration_order_def insert_commute)
  have c: ?C
    by (simp add: generar_recomendaciones_expansion_def dificultad_def oportunidad_de_def)
  from generar_recomendaciones_expansion_ranking [OF h] h c show ?thesis
    by blast
qed

text \<open>
  C3 as stated fails: Hawthorne and El Segundo, both not found and both at 5 km, in this
  input order. When the set of names is iterated as El Segundo, Hawthorne, the code lists
  El Segundo first; the ranking with ties in input order lists Hawthorne first.
\<close>

theorem generar_recomendaciones_expansion_ranking_counterexample:
  "iteration_order
     [\<lparr>ciudad = ''Hawthorne'', zip_code = ''90250'', tier = ''tier_2_nearby'',
        keyword = ''maid service'', aparece = False, posicion = None,
        distancia_km = 5, lat = 33.9164, lng = -118.3526, total_competidores = 20,
        rating_promedio = 4.5, reviews_promedio = 80\<rparr>,
      \<lparr>ciudad = ''El Segundo'', zip_code = ''90245'', tier = ''tier_2_nearby'',
        keyword = ''maid service'', aparece = False, posicion = None,
        distancia_km = 5, lat = 33.9192, lng = -118.4165, total_competidores = 18,
        rating_promedio = 4.4, reviews_promedio = 210\<rparr>]
     [''El Segundo'', ''Hawthorne''] \<and>
   generar_recomendaciones_expansion
     [\<lparr>ciudad = ''Hawthorne'', zip_code = ''90250'', tier = ''tier_2_nearby'',
        keyword = ''maid service'', aparece = False, posicion = None,
        distancia_km = 5, lat = 33.9164, lng = -118.3526, total_competidores = 20,
        rating_promedio = 4.5, reviews_promedio = 80\<rparr>,
      \<lparr>ciudad = ''El Segundo'', zip_code = ''90245'', tier = ''tier_2_nearby'',
        keyword = ''maid service'', aparece = False, posicion = None,
        distancia_km = 5, lat = 33.9192, lng = -118.4165, total_competidores = 18,
        rating_promedio = 4.4, reviews_promedio = 210\<rparr>]
     [''El Segundo'', ''Hawthorne'']
   = Inr [(1, ''El Segundo'', \<lparr>distancia = 5, tier_oportunidad = ''tier_2_nearby'', competidores = 18,
             rating_competidores = 4.4, reviews_competidores = 210\<rparr>, ''HARD''),
          (2, ''Hawthorne'', \<lparr>distancia = 5, tier_oportunidad = ''tier_2_nearby'', competidores = 20,
             rating_competidores = 4.5, reviews_competidores = 80\<rparr>, ''EASY'')] \<and>
   rank_spec
     [\<lparr>ciudad = ''Hawthorne'', zip_code = ''90250'', tier = ''tier_2_nearby'',
        keyword = ''maid service'', aparece = False, posicion = None,
        distancia_km = 5, lat = 33.9164, lng = -118.3526, total_competidores = 20,
        rating_promedio = 4.5, reviews_promedio = 80\<rparr>,
      \<lparr>ciudad = ''El Segundo'', zip_code = ''90245'', tier = ''tier_2_nearby'',
        keyword = ''maid service'', aparece = False, posicion = None,
        distancia_km = 5, lat = 33.9192, lng = -118.4165, total_competidores = 18,
        rating_promedio = 4.4, reviews_promedio = 210\<rparr>]
   = [(1, ''Hawthorne'', \<lparr>distancia = 5, tier_oportunidad = ''tier_2_nearby'', competidores = 20,
         rating_competidores = 4.5, reviews_competidores = 80\<rparr>, ''EASY''),
      (2, ''El Segundo'', \<lparr>distancia = 5, tier_oportunidad = ''tier_2_nearby'', competidores = 18,
         rating_competidores = 4.4, reviews_competidores = 210\<rparr>, ''HARD'')]"
  by (simp add: iteration_order_def generar_recomendaciones_expansion_def rank_spec_def
        dificultad_def oportunidad_de_def insert_commute)




text \<open>
  The ranking of the specification is the one the code computes when the set is iterated
  in the order of first occurrence.
\<close>

lemma set_dedup_by_location: "ciudad ` set (dedup_by_location rs) = ciudad ` set rs"
proof (induction rs rule: dedup_by_location.induct)
  case 1
  then show ?case by simp
next
  case (2 r rs)
  then show ?case by (auto simp: image_iff)
qed

lemma dedup_by_location_subset: "set (dedup_by_location rs) \<subseteq> set rs"
proof (induction rs rule: dedup_by_location.induct)
  case 1
  then show ?case by simp
next
  case (2 r rs)
  then show ?case by auto
qed

lemma distinct_dedup_by_location: "distinct (map ciudad (dedup_by_location rs))"
proof (induction rs rule: dedup_by_location.induct)
  case 1
  then show ?case by simp
next
  case (2 r rs)
  have "ciudad r \<notin> ciudad ` set (dedup_by_location (filter (\<lambda>q. ciudad q \<noteq> ciudad r) rs))"
    unfolding set_dedup_by_location by auto
  with 2 show ?case by simp
qed

lemma first_of_dedup_by_location:
  "map (\<lambda>c. hd (filter (\<lambda>r. ciudad r = c) rs)) (map ciudad (dedup_by_location rs)) =
     dedup_by_location rs"
proof (induction rs rule: dedup_by_location.induct)
  case 1
  then show ?case by simp
next
  case (2 r rs)
  let ?rs' = "filter (\<lambda>q. ciudad q \<noteq> ciudad r) rs"
  have "hd (filter (\<lambda>q. ciudad q = c) (r # rs)) = hd (filter (\<lambda>q. ciudad q = c) ?rs')"
    if "c \<in> set (map ciudad (dedup_by_location ?rs'))" for c
  proof -
    from that have "c \<in> ciudad ` set ?rs'"
      using set_dedup_by_location [of ?rs'] by simp
    then have "c \<noteq> ciudad r" by auto
    then have "filter (\<lambda>q. ciudad q = c) ?rs' = filter (\<lambda>q. ciudad q = c) rs"
      by (auto intro: filter_cong)
    with \<open>c \<noteq> ciudad r\<close> show ?thesis by auto
  qed
  then have "map (\<lambda>c. hd (filter (\<lambda>q. ciudad q = c) (r # rs))) (map ciudad (dedup_by_location ?rs')) =
             map (\<lambda>c. hd (filter (\<lambda>q. ciudad q = c) ?rs')) (map ciudad (dedup_by_location ?rs'))"
    by (intro map_cong) simp_all
  with 2 show ?case by simp
qed

lemma rank_spec_first_occurrence_order:
  assumes "orden = map ciudad (dedup_by_location (filter (\<lambda>r. \<not> aparece r) resultados))"
  shows "iteration_order resultados orden"
    and "generar_recomendaciones_expansion resultados orden = Inr (rank_spec resultados)"
proof -
  let ?no_ap = "filter (\<lambda>r. \<not> aparece r) resultados"
  show o: "iteration_order resultados orden"
    unfolding iteration_order_def assms
    using distinct_dedup_by_location [of ?no_ap] set_dedup_by_location [of ?no_ap]
    by simp
  show "generar_recomendaciones_expansion resultados orden = Inr (rank_spec resultados)"
    unfolding generar_recomendaciones_expansion_closed [OF o]
    unfolding assms first_of_dedup_by_location rank_spec_def Let_def ..
qed

end
